theory Spec2Isabelle
  imports Main "HOL-Library.Word"
begin

unbundle bit_operations_syntax

section \<open>The LC-3 virtual machine of tyvm.c\<close>

text \<open>
  The C program keeps two global arrays of \<open>uint16_t\<close>, \<open>memory[UINT16_MAX]\<close> and
  \<open>reg[RG_COUNT]\<close>, and a local \<open>int running\<close> of \<open>main\<close>. A machine word is a
  \<open>16 word\<close>: \<open>+\<close> wraps modulo \<open>2 ^ 16\<close>, as the assignment of an \<open>int\<close> sum to a
  \<open>uint16_t\<close> does. The arrays are functions from the C index to the word stored
  there; the declared sizes are constants, and every access whose index is not a 3-bit
  instruction field is checked against them, an index outside the array being an
  \<open>error\<close> value (undefined behaviour in C). The second source file is an earlier
  state of the same program, with the same \<open>main\<close> and every case of the switch still
  empty; the model follows tyvm.c.
\<close>

type_synonym word16 = "16 word"

subsection \<open>enum registers, enum opcodes, enum flags\<close>

definition RG_PC :: nat where "RG_PC = 8"
definition RG_COND :: nat where "RG_COND = 9"
definition RG_COUNT :: nat where "RG_COUNT = 10"

text \<open>\<open>UINT16_MAX\<close> of stdint.h, the declared number of elements of \<open>memory\<close>.\<close>

definition UINT16_MAX :: nat where "UINT16_MAX = 65535"

definition OP_BR :: word16 where "OP_BR = 0"
definition OP_ADD :: word16 where "OP_ADD = 1"
definition OP_LD :: word16 where "OP_LD = 2"
definition OP_ST :: word16 where "OP_ST = 3"
definition OP_JSR :: word16 where "OP_JSR = 4"
definition OP_AND :: word16 where "OP_AND = 5"
definition OP_LDR :: word16 where "OP_LDR = 6"
definition OP_STR :: word16 where "OP_STR = 7"
definition OP_RTI :: word16 where "OP_RTI = 8"
definition OP_NOT :: word16 where "OP_NOT = 9"
definition OP_LDI :: word16 where "OP_LDI = 10"
definition OP_STI :: word16 where "OP_STI = 11"
definition OP_JMP :: word16 where "OP_JMP = 12"
definition OP_RES :: word16 where "OP_RES = 13"
definition OP_LEA :: word16 where "OP_LEA = 14"
definition OP_TRAP :: word16 where "OP_TRAP = 15"

definition FL_P :: word16 where "FL_P = 1"
definition FL_Z :: word16 where "FL_Z = push_bit 1 1"
definition FL_N :: word16 where "FL_N = push_bit 2 1"

subsection \<open>The state\<close>

datatype error = Mem_index nat | Reg_index nat

record vm =
  memory :: "nat \<Rightarrow> word16"
  reg :: "nat \<Rightarrow> word16"
  running :: bool

text \<open>The assignment \<open>reg[i] = v\<close>.\<close>

definition set_reg :: "nat \<Rightarrow> word16 \<Rightarrow> vm \<Rightarrow> vm" where
  "set_reg i v s = s\<lparr>reg := (reg s)(i := v)\<rparr>"

subsection \<open>sign_extend and update_flags\<close>

text \<open>
  \<open>sign_extend(uint16_t n, int bit_count)\<close>. The operands of \<open>>>\<close>, \<open>&\<close>, \<open><<\<close> and
  \<open>|\<close> are promoted to the 32-bit \<open>int\<close>, and the result of \<open>|=\<close> is cut back to 16
  bits: the model computes in \<open>32 word\<close> and converts with \<open>ucast\<close>. For a bit
  count of 16 the product \<open>0xFFFF << 16\<close> leaves the range of \<open>int\<close>; the model
  takes its two's-complement bits, the result on compilers with a 32-bit \<open>int\<close>. Every
  call in the program passes a literal bit count (5, 6, 9 or 11), so it is a \<open>nat\<close>.
\<close>

definition sign_extend :: "word16 \<Rightarrow> nat \<Rightarrow> word16" where
  "sign_extend n bit_count =
     (if drop_bit (bit_count - 1) (ucast n :: 32 word) AND 1 \<noteq> 0
      then ucast ((ucast n :: 32 word) OR push_bit bit_count (0xFFFF :: 32 word))
      else n)"

text \<open>
  \<open>update_flags(uint16_t r)\<close> reads \<open>reg[r]\<close> for whatever \<open>r\<close> it is given, and
  writes \<open>reg[RG_COND]\<close>.
\<close>

definition update_flags :: "word16 \<Rightarrow> vm \<Rightarrow> error + vm" where
  "update_flags r s =
     (if unat r < RG_COUNT
      then Inr (if reg s (unat r) = 0 then set_reg RG_COND FL_Z s
                else if drop_bit 15 (reg s (unat r)) \<noteq> 0 then set_reg RG_COND FL_N s
                else set_reg RG_COND FL_P s)
      else Inl (Reg_index (unat r)))"

subsection \<open>Reading memory\<close>

text \<open>
  \<open>main\<close> reads memory only through \<open>mem_read\<close>, which no source file defines. The
  instruction handlers therefore take the reader as a parameter: given the memory and
  an address it fails, or returns the word read and the memory after the read (a read
  of a memory-mapped keyboard register may change memory). Addresses are 16-bit words,
  as in the spec: the \<open>int\<close> sum a call passes is cut to 16 bits.
\<close>

type_synonym reader = "(nat \<Rightarrow> word16) \<Rightarrow> word16 \<Rightarrow> error + (word16 \<times> (nat \<Rightarrow> word16))"

text \<open>
  Modelled from the spec: \<open>mem_read\<close>, called by \<open>main\<close> and defined nowhere in the
  sources. The spec's Memory is an ordered array of Words indexed by address, and a read
  returns the Word stored at the address. The two memory-mapped keyboard registers,
  whose addresses neither the spec nor the sources give, are left out of this instance.
  The array is the one the source declares, \<open>memory[UINT16_MAX]\<close>.
\<close>

definition mem_read :: reader where
  "mem_read m address =
     (if unat address < UINT16_MAX then Inr (m (unat address), m)
      else Inl (Mem_index (unat address)))"

text \<open>\<open>reg[i] = mem_read(a)\<close>, then the continuation \<open>k\<close>.\<close>

definition load_reg :: "reader \<Rightarrow> nat \<Rightarrow> word16 \<Rightarrow> vm \<Rightarrow> (vm \<Rightarrow> error + vm) \<Rightarrow> error + vm" where
  "load_reg mr i a s k =
     (case mr (memory s) a of
        Inl e \<Rightarrow> Inl e
      | Inr (v, m) \<Rightarrow> k (set_reg i v (s\<lparr>memory := m\<rparr>)))"

subsection \<open>The cases of the switch\<close>

text \<open>
  One definition for each \<open>case\<close> of the \<open>switch\<close> in \<open>main\<close>, with the locals the
  case declares. The cases \<open>OP_ST\<close>, \<open>OP_STR\<close>, \<open>OP_STI\<close> and \<open>OP_JMP\<close> call
  \<open>update_flags(dr)\<close> without declaring or assigning \<open>dr\<close>: the variable is the one
  other cases declare, and in these cases its value is indeterminate. The handlers take
  that value as the parameter \<open>d\<close>.
\<close>

definition case_BR :: "word16 \<Rightarrow> vm \<Rightarrow> error + vm" where
  "case_BR instr s =
     (let cond = drop_bit 9 instr AND 0x7;
          PCoffset9 = sign_extend (instr AND 0x1FF) 9
      in if cond AND reg s RG_COND \<noteq> 0
         then Inr (set_reg RG_PC (reg s RG_PC + PCoffset9) s)
         else Inr s)"

definition case_ADD :: "word16 \<Rightarrow> vm \<Rightarrow> error + vm" where
  "case_ADD instr s =
     (let dr = drop_bit 9 instr AND 0x7;
          sr1 = drop_bit 6 instr AND 0x7;
          imm_flag = drop_bit 5 instr AND 0x1
      in if imm_flag = 0
         then (let sr2 = instr AND 0x7
               in update_flags dr (set_reg (unat dr) (reg s (unat sr1) + sr2) s))
         else (let imm5 = sign_extend (instr AND 0x1F) 5
               in update_flags dr (set_reg (unat dr) (reg s (unat sr1) + imm5) s)))"

definition case_LD :: "reader \<Rightarrow> word16 \<Rightarrow> vm \<Rightarrow> error + vm" where
  "case_LD mr instr s =
     (let dr = drop_bit 9 instr AND 0x7;
          PCoffset9 = sign_extend (instr AND 0x1FF) 9
      in load_reg mr (unat dr) (PCoffset9 + reg s RG_PC) s (update_flags dr))"

definition case_ST :: "reader \<Rightarrow> word16 \<Rightarrow> word16 \<Rightarrow> vm \<Rightarrow> error + vm" where
  "case_ST mr d instr s =
     (let sr = drop_bit 6 instr AND 0x7;
          PCoffset9 = sign_extend (instr AND 0x1FF) 9
      in load_reg mr (unat sr) (PCoffset9 + reg s RG_PC) s (update_flags d))"

definition case_JSR :: "word16 \<Rightarrow> vm \<Rightarrow> error + vm" where
  "case_JSR instr s =
     (let PCoffset11 = sign_extend (instr AND 0x1FF) 11;
          jsr_flag = drop_bit 11 instr AND 0x1;
          BaseR_jsrr = drop_bit 6 instr AND 0x7
      in if jsr_flag = 0
         then Inr (set_reg RG_PC BaseR_jsrr s)
         else Inr (set_reg RG_PC (reg s RG_PC + PCoffset11) s))"

definition case_AND :: "word16 \<Rightarrow> vm \<Rightarrow> error + vm" where
  "case_AND instr s =
     (let dr = drop_bit 9 instr AND 0x7;
          sr1 = drop_bit 6 instr AND 0x7;
          imm_flag = drop_bit 5 instr AND 0x1
      in if imm_flag = 0
         then (let sr2 = instr AND 0x7
               in update_flags dr (set_reg (unat dr) (reg s (unat sr1) AND sr2) s))
         else (let imm5 = sign_extend (instr AND 0x1F) 5
               in update_flags dr (set_reg (unat dr) (reg s (unat sr1) AND imm5) s)))"

definition case_LDR :: "reader \<Rightarrow> word16 \<Rightarrow> vm \<Rightarrow> error + vm" where
  "case_LDR mr instr s =
     (let dr = drop_bit 9 instr AND 0x7;
          BaseR = drop_bit 6 instr AND 0x7;
          offset6 = sign_extend (instr AND 0x3FF) 6
      in load_reg mr (unat dr) (reg s (unat BaseR) + offset6) s (update_flags dr))"

definition case_STR :: "reader \<Rightarrow> word16 \<Rightarrow> word16 \<Rightarrow> vm \<Rightarrow> error + vm" where
  "case_STR mr d instr s =
     (let sr = drop_bit 6 instr AND 0x7;
          BaseR = drop_bit 6 instr AND 0x7;
          offset6 = sign_extend (instr AND 0x1FF) 6
      in load_reg mr (unat sr) (offset6 + BaseR) s (update_flags d))"

definition case_NOT :: "word16 \<Rightarrow> vm \<Rightarrow> error + vm" where
  "case_NOT instr s =
     (let dr = drop_bit 9 instr AND 0x7;
          sr = drop_bit 6 instr AND 0x7
      in update_flags dr (set_reg (unat dr) (NOT (reg s (unat sr))) s))"

text \<open>\<open>reg[i] = mem_read(mem_read(a))\<close>: the inner read first, then the outer.\<close>

definition case_LDI :: "reader \<Rightarrow> word16 \<Rightarrow> vm \<Rightarrow> error + vm" where
  "case_LDI mr instr s =
     (let dr = drop_bit 9 instr AND 0x7;
          PCoffset9 = sign_extend (instr AND 0x1FF) 9
      in case mr (memory s) (PCoffset9 + reg s RG_PC) of
           Inl e \<Rightarrow> Inl e
         | Inr (p, m) \<Rightarrow> load_reg mr (unat dr) p (s\<lparr>memory := m\<rparr>) (update_flags dr))"

definition case_STI :: "reader \<Rightarrow> word16 \<Rightarrow> word16 \<Rightarrow> vm \<Rightarrow> error + vm" where
  "case_STI mr d instr s =
     (let sr = drop_bit 6 instr AND 0x7;
          PCoffset9 = sign_extend (instr AND 0x1FF) 9
      in case mr (memory s) (PCoffset9 + reg s RG_PC) of
           Inl e \<Rightarrow> Inl e
         | Inr (p, m) \<Rightarrow> load_reg mr (unat sr) p (s\<lparr>memory := m\<rparr>) (update_flags d))"

definition case_JMP :: "word16 \<Rightarrow> word16 \<Rightarrow> vm \<Rightarrow> error + vm" where
  "case_JMP d instr s =
     (let BaseR = drop_bit 6 instr AND 0x7
      in update_flags d (set_reg RG_PC (reg s (unat BaseR)) s))"

definition case_LEA :: "word16 \<Rightarrow> vm \<Rightarrow> error + vm" where
  "case_LEA instr s =
     (let dr = drop_bit 9 instr AND 0x7;
          PCoffset9 = sign_extend (instr AND 0x1FF) 9
      in update_flags dr (set_reg (unat dr) (reg s RG_PC + PCoffset9) s))"

text \<open>
  The \<open>switch (op)\<close> with \<open>op = instr >> 12\<close>. The cases \<open>OP_TRAP\<close>, \<open>OP_RES\<close>,
  \<open>OP_RTI\<close> and \<open>default\<close> hold a comment and \<open>break\<close> only.
\<close>

definition exec :: "reader \<Rightarrow> word16 \<Rightarrow> word16 \<Rightarrow> vm \<Rightarrow> error + vm" where
  "exec mr d instr s =
     (let op = drop_bit 12 instr
      in if op = OP_BR then case_BR instr s
         else if op = OP_ADD then case_ADD instr s
         else if op = OP_LD then case_LD mr instr s
         else if op = OP_ST then case_ST mr d instr s
         else if op = OP_JSR then case_JSR instr s
         else if op = OP_AND then case_AND instr s
         else if op = OP_LDR then case_LDR mr instr s
         else if op = OP_STR then case_STR mr d instr s
         else if op = OP_NOT then case_NOT instr s
         else if op = OP_LDI then case_LDI mr instr s
         else if op = OP_STI then case_STI mr d instr s
         else if op = OP_JMP then case_JMP d instr s
         else if op = OP_LEA then case_LEA instr s
         else if op = OP_TRAP then Inr s
         else Inr s)"

subsection \<open>The run loop and main\<close>

text \<open>
  One iteration of \<open>while(running)\<close>: \<open>instr = mem_read(reg[RG_PC]++)\<close>, where the
  increment is done before \<open>mem_read\<close> runs, then the switch.
\<close>

definition step :: "reader \<Rightarrow> word16 \<Rightarrow> vm \<Rightarrow> error + vm" where
  "step mr d s =
     (let pc = reg s RG_PC;
          s1 = set_reg RG_PC (pc + 1) s
      in case mr (memory s1) pc of
           Inl e \<Rightarrow> Inl e
         | Inr (instr, m) \<Rightarrow> exec mr d instr (s1\<lparr>memory := m\<rparr>))"

text \<open>
  The loop, run for at most \<open>n\<close> iterations; \<open>ds k\<close> is the indeterminate value of
  \<open>dr\<close> in the iteration that has \<open>k\<close> more to follow.
\<close>

fun run_loop :: "reader \<Rightarrow> (nat \<Rightarrow> word16) \<Rightarrow> nat \<Rightarrow> vm \<Rightarrow> error + vm" where
  "run_loop mr ds 0 s = Inr s"
| "run_loop mr ds (Suc n) s =
     (if running s
      then (case step mr (ds n) s of Inl e \<Rightarrow> Inl e | Inr s' \<Rightarrow> run_loop mr ds n s')
      else Inr s)"

text \<open>
  The globals at program start (static storage is zeroed), with \<open>reg[RG_COND] = FL_Z\<close>,
  \<open>reg[RG_PC] = 0x3000\<close> and \<open>running = TRUE\<close> as \<open>main\<close> sets them.
\<close>

definition initial_vm :: vm where
  "initial_vm =
     \<lparr>memory = (\<lambda>_. 0), reg = (\<lambda>_. 0)(RG_COND := FL_Z, RG_PC := 0x3000), running = True\<rparr>"

text \<open>
  What a run of \<open>main\<close> comes to: the process exits with the text printed and an exit
  code, an array index leaves its array, or the loop is still running when the
  iterations allowed are used up.
\<close>

datatype outcome = Exit string int | Fault error | Looping vm

text \<open>
  \<open>main(argc, argv)\<close> with \<open>argc = length argv\<close>. The \<open>for\<close> loop over the image
  files starts at \<open>i = 1\<close> and its body ends with \<open>exit(1)\<close>, so it is entered at most
  once. The calls that set up the terminal do not touch the machine state.
\<close>

definition main :: "reader \<Rightarrow> (nat \<Rightarrow> word16) \<Rightarrow> nat \<Rightarrow> string list \<Rightarrow> outcome" where
  "main mr ds fuel argv =
     (let argc = length argv
      in if argc < 2 then Exit (''usage: [image-file1] ...'' @ [CHR 0x0A]) 2
         else if 1 < argc
         then Exit (''failed to load image: '' @ argv ! 1 @ [CHR 0x0A]) 1
         else (case run_loop mr ds fuel initial_vm of
                 Inl e \<Rightarrow> Fault e
               | Inr s \<Rightarrow> if running s then Looping s else Exit [] 0))"

subsection \<open>Machine states used below\<close>

text \<open>
  Each state is the initial one with some registers and memory cells set, as an image
  loaded at \<open>0x3000\<close> and a few executed instructions would leave them.
\<close>

definition with_memory :: "(nat \<times> word16) list \<Rightarrow> vm \<Rightarrow> vm" where
  "with_memory cells s = s\<lparr>memory := fold (\<lambda>(a, v) m. m(a := v)) cells (memory s)\<rparr>"

text \<open>\<open>R1 = 5\<close>, \<open>R2 = 3\<close>, and \<open>R1 = 7\<close>, \<open>R2 = 5\<close>.\<close>

definition add_state :: vm where
  "add_state = set_reg 2 3 (set_reg 1 5 initial_vm)"

definition and_state :: vm where
  "and_state = set_reg 2 5 (set_reg 1 7 initial_vm)"

text \<open>
  The PC is \<open>0x3001\<close> after the fetch from \<open>0x3000\<close>, \<open>R1 = 0xAB\<close>, and the word
  at \<open>0x3003\<close> is 7; in the second state it is the pointer \<open>0x4000\<close>, and the word at
  \<open>0x4000\<close> is 9.
\<close>

definition st_state :: vm where
  "st_state = set_reg 1 0xAB (set_reg RG_PC 0x3001 (with_memory [(0x3003, 7)] initial_vm))"

definition sti_state :: vm where
  "sti_state =
     set_reg 1 0xAB (set_reg RG_PC 0x3001 (with_memory [(0x3003, 0x4000), (0x4000, 9)] initial_vm))"

text \<open>The PC is \<open>0x3001\<close> after the fetch, and \<open>R2 = 0x4000\<close>.\<close>

definition jsr_state :: vm where
  "jsr_state = set_reg 2 0x4000 (set_reg RG_PC 0x3001 initial_vm)"

text \<open>\<open>R0 = 0x1234\<close> is the value to store, \<open>R1 = 0x4000\<close> the base address.\<close>

definition str_state :: vm where
  "str_state = set_reg 1 0x4000 (set_reg 0 0x1234 initial_vm)"

text \<open>The word at \<open>0x3000\<close> is \<open>0xF025\<close>, the instruction \<open>TRAP x25\<close> (HALT).\<close>

definition halt_state :: vm where
  "halt_state = with_memory [(0x3000, 0xF025)] initial_vm"

text \<open>
  \<open>ADD R1, R1, #1\<close> has run (\<open>R1 = 1\<close>, the flags are Positive), the PC is \<open>0x3002\<close>
  after the fetch from \<open>0x3001\<close>, and the word at \<open>0x3004\<close> is \<open>0x8000\<close>.
\<close>

definition flag_state :: vm where
  "flag_state =
     set_reg RG_COND FL_P (set_reg 1 1 (set_reg RG_PC 0x3002 (with_memory [(0x3004, 0x8000)] initial_vm)))"

text \<open>The indeterminate \<open>dr\<close> being 0 in every iteration of the loop.\<close>

definition dr_zero :: "nat \<Rightarrow> word16" where
  "dr_zero k = 0"

text \<open>The word at \<open>0x3000\<close> is \<open>0xD000\<close>, an instruction with the opcode RES.\<close>

definition res_state :: vm where
  "res_state = with_memory [(0x3000, 0xD000)] initial_vm"

section \<open>Properties\<close>

lemma field3_less_8: "unat ((w :: word16) AND 0x7) < 8"
proof -
  have "w AND 0x7 \<le> 0x7" by (rule word_and_le1)
  then show ?thesis by (simp add: word_le_nat_alt)
qed

subsection \<open>Sign extension\<close>

lemma promoted_bit_test:
  "(drop_bit k (ucast (n :: word16) :: 32 word) AND 1 \<noteq> 0) = bit n k"
proof -
  have "(drop_bit k (ucast n :: 32 word) AND 1 \<noteq> 0) = bit (ucast n :: 32 word) k"
    by (simp add: and_one_eq bit_iff_odd_drop_bit odd_iff_mod_2_eq_one)
  also have "\<dots> = bit n k"
    by (auto simp add: bit_simps dest: bit_imp_le_length)
  finally show ?thesis .
qed

lemma promoted_or_truncated:
  "(ucast ((ucast (n :: word16) :: 32 word) OR push_bit k (0xFFFF :: 32 word)) :: word16)
     = n OR NOT (mask k)"
proof (rule bit_word_eqI)
  fix m assume m: "m < LENGTH(16)"
  have ones: "(0xFFFF :: 32 word) = mask 16"
    by (simp add: mask_eq_exp_minus_1)
  show "bit (ucast ((ucast n :: 32 word) OR push_bit k (0xFFFF :: 32 word)) :: word16) m
          = bit (n OR NOT (mask k)) m"
    unfolding ones using m by (auto simp add: bit_simps)
qed

text \<open>The function on 16-bit words alone: the bits from \<open>k\<close> upwards are set.\<close>

lemma sign_extend_16:
  "sign_extend n k = (if bit n (k - 1) then n OR NOT (mask k) else n)"
  by (simp add: sign_extend_def promoted_bit_test promoted_or_truncated)

lemma field_bits:
  assumes "unat (n :: word16) < 2 ^ N" "bit n m"
  shows "m < N"
proof (rule ccontr)
  assume high: "\<not> m < N"
  have "take_bit N (unat n) = unat n"
    using assms(1) by (simp add: take_bit_nat_eq_self)
  then have "take_bit N n = n"
    by (metis unsigned_take_bit_eq word_unat_eq_iff)
  then have "bit (take_bit N n) m"
    using assms(2) by simp
  then show False
    using high by (simp add: bit_take_bit_iff)
qed

lemma or_high_bits:
  assumes "unat (n :: word16) < 2 ^ N"
  shows "n OR NOT (mask N) = n - 2 ^ N"
proof -
  have "n + NOT (mask N) = n OR NOT (mask N)"
    by (rule disjunctive_add) (use field_bits [OF assms] in \<open>auto simp add: bit_simps\<close>)
  then show ?thesis
    by (simp flip: minus_exp_eq_not_mask)
qed

lemma sign_extend_word:
  "unat n < 2 ^ N \<Longrightarrow> sign_extend n N = (if bit n (N - 1) then n - 2 ^ N else n)"
  by (simp add: sign_extend_16 or_high_bits)

lemma uint_minus_exp: "uint ((n :: word16) - 2 ^ N) = (uint n - 2 ^ N) mod 2 ^ 16"
proof -
  have "n - 2 ^ N = (word_of_int (uint n - 2 ^ N) :: word16)"
    by simp
  then have "uint (n - 2 ^ N) = uint (word_of_int (uint n - 2 ^ N) :: word16)"
    by simp
  also have "\<dots> = (uint n - 2 ^ N) mod 2 ^ 16"
    by (simp only: uint_word_of_int) simp
  finally show ?thesis .
qed

lemma field_top_set:
  assumes "bit (n :: word16) k"
  shows "2 ^ k \<le> uint n"
proof (rule ccontr)
  assume "\<not> 2 ^ k \<le> uint n"
  then have "uint n div 2 ^ k = 0"
    by (simp add: div_pos_pos_trivial)
  then have "\<not> bit (uint n) k"
    by (simp add: bit_iff_odd)
  then show False
    using assms by (auto simp add: bit_uint_iff dest: bit_imp_le_length)
qed

lemma field_top_clear:
  assumes "1 \<le> N" "unat (n :: word16) < 2 ^ N" "\<not> bit n (N - 1)"
  shows "uint n < 2 ^ (N - 1)"
proof -
  have "take_bit (N - 1) n = n"
  proof (rule bit_word_eqI)
    fix m assume "m < LENGTH(16)"
    show "bit (take_bit (N - 1) n) m = bit n m"
      using field_bits [OF assms(2), of m] assms(1,3)
      by (cases "m = N - 1") (auto simp add: bit_take_bit_iff)
  qed
  then have "uint n = take_bit (N - 1) (uint n)"
    by (metis unsigned_take_bit_eq)
  then show ?thesis
    by (metis take_bit_int_less_exp)
qed

lemma pow_le_15: "N \<le> 16 \<Longrightarrow> (2 :: int) ^ (N - 1) \<le> 32768"
proof -
  assume "N \<le> 16"
  then have "(2 :: int) ^ (N - 1) \<le> 2 ^ 15"
    by (intro power_increasing) simp_all
  then show ?thesis by simp
qed

lemma sint_minus_exp:
  assumes "1 \<le> N" "N \<le> 16" "unat (n :: word16) < 2 ^ N" "bit n (N - 1)"
  shows "sint (n - 2 ^ N) = uint n - 2 ^ N"
proof -
  have lo: "(2 :: int) ^ (N - 1) \<le> uint n"
    using assms(4) by (rule field_top_set)
  have "int (unat n) < int (2 ^ N)"
    using assms(3) by (simp only: of_nat_less_iff)
  then have hi: "uint n < 2 ^ N"
    by simp
  have "N = Suc (N - 1)"
    using assms(1) by simp
  then have p: "(2 :: int) ^ N = 2 * 2 ^ (N - 1)"
    by (metis power_Suc)
  note q = pow_le_15 [OF assms(2)]
  have "n - 2 ^ N = (word_of_int (uint n - 2 ^ N) :: word16)"
    by simp
  then have "sint (n - 2 ^ N) = signed_take_bit 15 (uint n - 2 ^ N)"
    by (simp only: sint_sbintrunc') simp
  also have "\<dots> = uint n - 2 ^ N"
  proof (rule signed_take_bit_int_eq_self)
    show "- (2 ^ 15) \<le> uint n - 2 ^ N" using lo p q by simp
    show "uint n - 2 ^ N < 2 ^ 15" using hi by simp
  qed
  finally show ?thesis .
qed

lemma sint_field:
  assumes "1 \<le> N" "N \<le> 16" "unat (n :: word16) < 2 ^ N" "\<not> bit n (N - 1)"
  shows "sint n = uint n"
proof -
  have a: "uint n < 2 ^ (N - 1)"
    using assms(1,3,4) by (rule field_top_clear)
  note q = pow_le_15 [OF assms(2)]
  have "sint n = signed_take_bit 15 (uint n)"
    by (simp add: sint_uint)
  also have "\<dots> = uint n"
  proof (rule signed_take_bit_int_eq_self)
    have "- (2 ^ 15) \<le> (0 :: int)" by simp
    also have "0 \<le> uint n" by simp
    finally show "- (2 ^ 15) \<le> uint n" .
    show "uint n < 2 ^ 15" using a q by simp
  qed
  finally show ?thesis .
qed

text \<open>
  C8. For every width \<open>N\<close> from 1 to 16 and every \<open>N\<close>-bit field value \<open>n\<close>
  (\<open>n < 2 ^ N\<close>): when bit \<open>N - 1\<close> of \<open>n\<close> is 0, \<open>sign_extend n N\<close> is \<open>n\<close>
  itself, and read as a signed 16-bit number it is the value of \<open>n\<close>; when bit
  \<open>N - 1\<close> is 1, the 16-bit result is the value of \<open>n\<close> minus \<open>2 ^ N\<close> taken modulo
  \<open>2 ^ 16\<close>, and read as a signed 16-bit number it is the value of \<open>n\<close> minus \<open>2 ^ N\<close>.
\<close>

theorem sign_extend_field:
  assumes "1 \<le> N" and "N \<le> 16" and "unat n < 2 ^ N"
  shows "if bit n (N - 1)
         then uint (sign_extend n N) = (uint n - 2 ^ N) mod 2 ^ 16
              \<and> sint (sign_extend n N) = uint n - 2 ^ N
         else sign_extend n N = n \<and> sint (sign_extend n N) = uint n"
proof (cases "bit n (N - 1)")
  case True
  then have "sign_extend n N = n - 2 ^ N"
    using assms(3) by (simp add: sign_extend_word)
  then show ?thesis
    using True sint_minus_exp [OF assms True] by (simp only: uint_minus_exp if_True simp_thms)
next
  case False
  then have "sign_extend n N = n"
    using assms(3) by (simp add: sign_extend_word)
  then show ?thesis
    using False sint_field [OF assms False] by simp
qed

theorem sign_extend_field_witness:
  "uint (sign_extend 0x1F 5) = (uint (0x1F :: word16) - 2 ^ 5) mod 2 ^ 16
   \<and> sint (sign_extend 0x1F 5) = - 1
   \<and> sign_extend 0x0F 5 = 0x0F
   \<and> sint (sign_extend 0x0F 5) = 15"
proof -
  have neg: "bit (0x1F :: word16) (5 - 1)" by simp
  have pos: "\<not> bit (0x0F :: word16) (5 - 1)" by simp
  have a: "unat (0x1F :: word16) < 2 ^ 5" by simp
  have b: "unat (0x0F :: word16) < 2 ^ 5" by simp
  show ?thesis
    using sign_extend_field [of 5 "0x1F", OF _ _ a] sign_extend_field [of 5 "0x0F", OF _ _ b]
      neg pos
    by simp
qed

subsection \<open>Evaluating the definitions\<close>

lemmas opcodes = OP_BR_def OP_ADD_def OP_LD_def OP_ST_def OP_JSR_def OP_AND_def OP_LDR_def
  OP_STR_def OP_RTI_def OP_NOT_def OP_LDI_def OP_STI_def OP_JMP_def OP_RES_def OP_LEA_def
  OP_TRAP_def

lemmas registers = RG_PC_def RG_COND_def RG_COUNT_def

lemmas flags = FL_P_def FL_Z_def FL_N_def

lemmas states = set_reg_def with_memory_def initial_vm_def registers

lemmas reads = load_reg_def mem_read_def UINT16_MAX_def sign_extend_def

subsection \<open>ADD and AND\<close>

text \<open>
  What the two cases do in immediate mode, for every instruction word: the destination
  register receives source register 1 combined with the sign-extended low five bits,
  and the flags are then set from the destination register.
\<close>

lemma case_ADD_immediate:
  assumes "drop_bit 5 instr AND 0x1 \<noteq> 0"
  shows "case_ADD instr s =
           update_flags (drop_bit 9 instr AND 0x7)
             (set_reg (unat (drop_bit 9 instr AND 0x7))
                (reg s (unat (drop_bit 6 instr AND 0x7)) + sign_extend (instr AND 0x1F) 5) s)"
  using assms by (simp add: case_ADD_def Let_def)

lemma case_AND_immediate:
  assumes "drop_bit 5 instr AND 0x1 \<noteq> 0"
  shows "case_AND instr s =
           update_flags (drop_bit 9 instr AND 0x7)
             (set_reg (unat (drop_bit 9 instr AND 0x7))
                (reg s (unat (drop_bit 6 instr AND 0x7)) AND sign_extend (instr AND 0x1F) 5) s)"
  using assms by (simp add: case_AND_def Let_def)

text \<open>
  In register mode the second operand is the 3-bit field \<open>instr AND 0x7\<close> itself, the
  number of source register 2, and not the word that register holds.
\<close>

lemma case_ADD_register:
  assumes "drop_bit 5 instr AND 0x1 = 0"
  shows "case_ADD instr s =
           update_flags (drop_bit 9 instr AND 0x7)
             (set_reg (unat (drop_bit 9 instr AND 0x7))
                (reg s (unat (drop_bit 6 instr AND 0x7)) + (instr AND 0x7)) s)"
  using assms by (simp add: case_ADD_def Let_def)

lemma case_AND_register:
  assumes "drop_bit 5 instr AND 0x1 = 0"
  shows "case_AND instr s =
           update_flags (drop_bit 9 instr AND 0x7)
             (set_reg (unat (drop_bit 9 instr AND 0x7))
                (reg s (unat (drop_bit 6 instr AND 0x7)) AND (instr AND 0x7)) s)"
  using assms by (simp add: case_AND_def Let_def)

text \<open>
  C1, evaluated where it fails. \<open>0x1042\<close> is \<open>ADD R0, R1, R2\<close> and \<open>0x5042\<close> is
  \<open>AND R0, R1, R2\<close>, both in register mode. With \<open>R1 = 5\<close> and \<open>R2 = 3\<close> the ADD
  leaves \<open>5 + 2 = 7\<close> in \<open>R0\<close>, where the sum of the two registers is 8; with
  \<open>R1 = 7\<close> and \<open>R2 = 5\<close> the AND leaves \<open>7 AND 2 = 2\<close> in \<open>R0\<close>, where the
  conjunction of the two registers is 5. The flags are set from \<open>R0\<close>.
\<close>

theorem register_mode_takes_register_number:
  "exec mr d 0x1042 add_state = Inr (set_reg RG_COND FL_P (set_reg 0 7 add_state))
   \<and> exec mr d 0x5042 and_state = Inr (set_reg RG_COND FL_P (set_reg 0 2 and_state))"
  by (simp add: exec_def opcodes case_ADD_def case_AND_def update_flags_def add_state_def
      and_state_def states flags)

subsection \<open>ST and STI\<close>

text \<open>
  C2, evaluated where it fails. \<open>0x3202\<close> is \<open>ST R1, #2\<close> and \<open>0xB202\<close> is
  \<open>STI R1, #2\<close>. Whatever the indeterminate \<open>d\<close> is, the ST reads the word 7 at
  \<open>0x3003\<close> into \<open>R0\<close> (the register numbered by bits 6 to 8) and the STI reads the
  word 9 at \<open>0x4000\<close> into \<open>R0\<close>; then the flags are set from register \<open>d\<close>. Memory
  is as it was: \<open>0xAB\<close>, the word in \<open>R1\<close>, is stored nowhere.
\<close>

theorem st_sti_read_memory_into_register:
  "exec mem_read d 0x3202 st_state = update_flags d (set_reg 0 7 st_state)
   \<and> exec mem_read d 0xB202 sti_state = update_flags d (set_reg 0 9 sti_state)"
  by (simp add: exec_def opcodes case_ST_def case_STI_def reads st_state_def sti_state_def
      states)

subsection \<open>JSR\<close>

text \<open>
  C4, evaluated where it fails. \<open>0x4080\<close> is \<open>JSRR R2\<close>: with \<open>R2 = 0x4000\<close> the
  PC becomes 2, the number of the base register. \<open>0x4FFF\<close> is \<open>JSR #-1\<close>: the PC
  \<open>0x3001\<close> becomes \<open>0x3001 + 0x1FF = 0x3200\<close>, the low nine bits of the word added
  unextended, and not \<open>0x3000\<close>. In both \<open>R7\<close> is not written.
\<close>

theorem jsr_sets_pc_only:
  "exec mr d 0x4080 jsr_state = Inr (set_reg RG_PC 2 jsr_state)
   \<and> exec mr d 0x4FFF jsr_state = Inr (set_reg RG_PC 0x3200 jsr_state)"
  by (simp add: exec_def opcodes case_JSR_def sign_extend_def jsr_state_def states)

subsection \<open>STR and LDR\<close>

text \<open>
  C5, evaluated where it fails. \<open>0x7040\<close> is \<open>STR R0, R1, #0\<close> and \<open>0x6440\<close> is
  \<open>LDR R2, R1, #0\<close>. The STR reads the word at \<open>0x0041\<close> (bits 0 to 8 of the
  instruction plus the number of the base register) into \<open>R1\<close>, sets the flags
  from register \<open>d\<close> (Positive for \<open>d = 0\<close>) and stores nothing; the LDR that
  follows leaves 0 in \<open>R2\<close>, and not \<open>0x1234\<close>, the word in \<open>R0\<close>.
\<close>

theorem str_then_ldr_returns_other_value:
  "exec mem_read d 0x7040 str_state = update_flags d (set_reg 1 0 str_state)
   \<and> exec mem_read 0 0x7040 str_state = Inr (set_reg RG_COND FL_P (set_reg 1 0 str_state))
   \<and> exec mem_read d 0x6440 (set_reg RG_COND FL_P (set_reg 1 0 str_state))
       = Inr (set_reg RG_COND FL_Z (set_reg 2 0 (set_reg RG_COND FL_P (set_reg 1 0 str_state))))"
  by (simp add: exec_def opcodes case_STR_def case_LDR_def reads update_flags_def
      str_state_def states flags)

subsection \<open>The bounds of the arrays\<close>

text \<open>
  C6, evaluated where it fails. \<open>memory\<close> is declared with \<open>UINT16_MAX = 65535\<close>
  elements, so the address \<open>0xFFFF\<close> is no index of it: the fetch with the PC at
  \<open>0xFFFF\<close>, and \<open>LDR R0, R0, #0\<close> (\<open>0x6000\<close>) with \<open>R0 = 0xFFFF\<close>, read outside
  the array.
\<close>

theorem address_ffff_outside_memory:
  "UINT16_MAX = unat (0xFFFF :: word16)
   \<and> step mem_read d (set_reg RG_PC 0xFFFF initial_vm) = Inl (Mem_index 65535)
   \<and> exec mem_read d 0x6000 (set_reg 0 0xFFFF initial_vm) = Inl (Mem_index 65535)"
  by (simp add: step_def exec_def opcodes case_LDR_def reads states)

text \<open>
  A register index that is no 3-bit field: \<open>JMP R0\<close> (\<open>0xC000\<close>) passes the
  indeterminate \<open>d\<close> to \<open>update_flags\<close>, which reads \<open>reg[d]\<close>.
\<close>

lemma jmp_reads_register_d:
  "exec mr d 0xC000 s = update_flags d (set_reg RG_PC (reg s 0) s)"
  by (simp add: exec_def opcodes case_JMP_def)

subsection \<open>The condition flags\<close>

lemma high_bit_negative: "(drop_bit 15 (v :: word16) \<noteq> 0) = (sint v < 0)"
  using drop_bit_eq_zero_iff_not_bit_last [of v] bit_last_iff [of v] by simp

text \<open>
  \<open>update_flags\<close> itself: for a register index inside the array it sets
  \<open>reg[RG_COND]\<close> to exactly one of the three flags, the one for the sign of the
  word in register \<open>r\<close>, and changes nothing else.
\<close>

lemma update_flags_sign:
  assumes "unat r < RG_COUNT"
  shows "update_flags r s =
           Inr (set_reg RG_COND
                  (if reg s (unat r) = 0 then FL_Z
                   else if sint (reg s (unat r)) < 0 then FL_N else FL_P) s)"
  using assms by (simp add: update_flags_def high_bit_negative)

lemma flags_distinct: "FL_P \<noteq> FL_Z \<and> FL_P \<noteq> FL_N \<and> FL_Z \<noteq> FL_N"
  by (simp add: flags)

lemma write_then_flags:
  assumes "update_flags (w AND 0x7) (set_reg (unat (w AND 0x7)) v t) = Inr s'"
  shows "reg s' (unat (w AND 0x7)) = v
         \<and> reg s' RG_COND = (if v = 0 then FL_Z else if sint v < 0 then FL_N else FL_P)"
proof -
  have small: "unat (w AND 0x7) < 8"
    by (rule field3_less_8)
  then have "unat (w AND 0x7) < RG_COUNT"
    by (simp add: RG_COUNT_def)
  from update_flags_sign [OF this] assms small show ?thesis
    by (auto simp add: set_reg_def RG_COND_def)
qed

lemma load_then_flags:
  assumes "load_reg mr (unat (w AND 0x7)) a s (update_flags (w AND 0x7)) = Inr s'"
  shows "reg s' RG_COND =
           (if reg s' (unat (w AND 0x7)) = 0 then FL_Z
            else if sint (reg s' (unat (w AND 0x7))) < 0 then FL_N else FL_P)"
  using assms
  by (auto simp add: load_reg_def split: sum.splits prod.splits dest!: write_then_flags)

text \<open>
  The seven cases that write \<open>reg[dr]\<close> and then call \<open>update_flags(dr)\<close> with the
  same \<open>dr\<close>: afterwards the one flag set is the one for the sign of the word in the
  destination register.
\<close>

lemma flags_match_destination:
  assumes "exec mr d instr s = Inr s'"
    and "drop_bit 12 instr \<in> {OP_ADD, OP_LD, OP_AND, OP_LDR, OP_NOT, OP_LDI, OP_LEA}"
  shows "reg s' RG_COND =
           (if reg s' (unat (drop_bit 9 instr AND 0x7)) = 0 then FL_Z
            else if sint (reg s' (unat (drop_bit 9 instr AND 0x7))) < 0 then FL_N else FL_P)"
proof -
  consider "case_ADD instr s = Inr s'" | "case_LD mr instr s = Inr s'"
    | "case_AND instr s = Inr s'" | "case_LDR mr instr s = Inr s'"
    | "case_NOT instr s = Inr s'" | "case_LDI mr instr s = Inr s'"
    | "case_LEA instr s = Inr s'"
    using assms by (auto simp add: exec_def opcodes split: if_splits)
  then show ?thesis
  proof cases
    case 1
    then show ?thesis
      by (auto simp add: case_ADD_def Let_def split: if_splits dest!: write_then_flags)
  next
    case 2
    then show ?thesis
      unfolding case_LD_def Let_def by (rule load_then_flags)
  next
    case 3
    then show ?thesis
      by (auto simp add: case_AND_def Let_def split: if_splits dest!: write_then_flags)
  next
    case 4
    then show ?thesis
      unfolding case_LDR_def Let_def by (rule load_then_flags)
  next
    case 5
    then show ?thesis
      by (auto simp add: case_NOT_def Let_def dest!: write_then_flags)
  next
    case 6
    then show ?thesis
      unfolding case_LDI_def Let_def
      by (auto split: sum.splits prod.splits dest!: load_then_flags)
  next
    case 7
    then show ?thesis
      by (auto simp add: case_LEA_def Let_def dest!: write_then_flags)
  qed
qed

text \<open>
  C7, evaluated where it fails. \<open>0x3002\<close> is an ST whose bits 6 to 8 number \<open>R0\<close>.
  The case writes \<open>0x8000\<close>, a negative word, to \<open>R0\<close> and then sets the flags from
  register \<open>d\<close>, whatever the indeterminate \<open>d\<close> is. With \<open>dr\<close> left at 1 by the
  \<open>ADD R1, R1, #1\<close> before it, the flags are set from \<open>R1 = 1\<close>: \<open>reg[RG_COND]\<close>
  is \<open>FL_P\<close>, and the word just written is negative.
\<close>

theorem st_flags_from_other_register:
  "exec mem_read d 0x3002 flag_state = update_flags d (set_reg 0 0x8000 flag_state)
   \<and> exec mem_read 1 0x3002 flag_state
       = Inr (set_reg RG_COND FL_P (set_reg 0 0x8000 flag_state))
   \<and> sint (0x8000 :: word16) < 0"
  by (simp add: exec_def opcodes case_ST_def reads update_flags_def flag_state_def states flags)

subsection \<open>The run loop\<close>

lemma update_flags_running: "update_flags r s = Inr s' \<Longrightarrow> running s' = running s"
  by (auto simp add: update_flags_def set_reg_def split: if_splits)

lemma load_reg_running:
  assumes "load_reg mr i a s k = Inr s'"
    and "\<And>t t'. k t = Inr t' \<Longrightarrow> running t' = running t"
  shows "running s' = running s"
  using assms by (auto simp add: load_reg_def set_reg_def split: sum.splits prod.splits)

lemma case_BR_running: "case_BR instr s = Inr s' \<Longrightarrow> running s' = running s"
  by (auto simp add: case_BR_def Let_def set_reg_def split: if_splits)

lemma case_ADD_running: "case_ADD instr s = Inr s' \<Longrightarrow> running s' = running s"
  by (auto simp add: case_ADD_def Let_def set_reg_def dest!: update_flags_running
      split: if_splits)

lemma case_AND_running: "case_AND instr s = Inr s' \<Longrightarrow> running s' = running s"
  by (auto simp add: case_AND_def Let_def set_reg_def dest!: update_flags_running
      split: if_splits)

lemma case_NOT_running: "case_NOT instr s = Inr s' \<Longrightarrow> running s' = running s"
  by (auto simp add: case_NOT_def Let_def set_reg_def dest!: update_flags_running)

lemma case_LEA_running: "case_LEA instr s = Inr s' \<Longrightarrow> running s' = running s"
  by (auto simp add: case_LEA_def Let_def set_reg_def dest!: update_flags_running)

lemma case_JMP_running: "case_JMP d instr s = Inr s' \<Longrightarrow> running s' = running s"
  by (auto simp add: case_JMP_def Let_def set_reg_def dest!: update_flags_running)

lemma case_JSR_running: "case_JSR instr s = Inr s' \<Longrightarrow> running s' = running s"
  by (auto simp add: case_JSR_def Let_def set_reg_def split: if_splits)

lemma case_LD_running: "case_LD mr instr s = Inr s' \<Longrightarrow> running s' = running s"
  unfolding case_LD_def Let_def by (erule load_reg_running) (rule update_flags_running)

lemma case_ST_running: "case_ST mr d instr s = Inr s' \<Longrightarrow> running s' = running s"
  unfolding case_ST_def Let_def by (erule load_reg_running) (rule update_flags_running)

lemma case_LDR_running: "case_LDR mr instr s = Inr s' \<Longrightarrow> running s' = running s"
  unfolding case_LDR_def Let_def by (erule load_reg_running) (rule update_flags_running)

lemma case_STR_running: "case_STR mr d instr s = Inr s' \<Longrightarrow> running s' = running s"
  unfolding case_STR_def Let_def by (erule load_reg_running) (rule update_flags_running)

lemma case_LDI_running: "case_LDI mr instr s = Inr s' \<Longrightarrow> running s' = running s"
  unfolding case_LDI_def Let_def
  by (auto split: sum.splits prod.splits dest!: load_reg_running [OF _ update_flags_running])

lemma case_STI_running: "case_STI mr d instr s = Inr s' \<Longrightarrow> running s' = running s"
  unfolding case_STI_def Let_def
  by (auto split: sum.splits prod.splits dest!: load_reg_running [OF _ update_flags_running])

lemmas case_running = case_BR_running case_ADD_running case_AND_running case_NOT_running
  case_LEA_running case_JMP_running case_JSR_running case_LD_running case_ST_running
  case_LDR_running case_STR_running case_LDI_running case_STI_running

text \<open>No case of the switch assigns \<open>running\<close>.\<close>

lemma exec_running: "exec mr d instr s = Inr s' \<Longrightarrow> running s' = running s"
  unfolding exec_def Let_def by (auto split: if_splits dest: case_running)

lemma step_running: "step mr d s = Inr s' \<Longrightarrow> running s' = running s"
  unfolding step_def Let_def
  by (auto split: sum.splits prod.splits dest!: exec_running simp add: set_reg_def)

lemma run_loop_running: "running s \<Longrightarrow> run_loop mr ds n s = Inr s' \<Longrightarrow> running s'"
proof (induction n arbitrary: s)
  case 0
  then show ?case by simp
next
  case (Suc n)
  from Suc.prems obtain s1
    where first: "step mr (ds n) s = Inr s1" and rest: "run_loop mr ds n s1 = Inr s'"
    by (auto split: sum.splits)
  from first Suc.prems(1) have "running s1"
    by (simp add: step_running)
  then show ?case
    using rest by (rule Suc.IH)
qed

text \<open>
  With the plain array read no case of the switch writes memory: the program has no
  assignment to an element of \<open>memory\<close>.
\<close>

lemma update_flags_memory: "update_flags r s = Inr s' \<Longrightarrow> memory s' = memory s"
  by (auto simp add: update_flags_def set_reg_def split: if_splits)

lemma load_reg_memory:
  "load_reg mem_read i a s (update_flags r) = Inr s' \<Longrightarrow> memory s' = memory s"
  by (auto simp add: load_reg_def mem_read_def set_reg_def
      split: sum.splits prod.splits if_splits dest!: update_flags_memory)

lemma exec_memory: "exec mem_read d instr s = Inr s' \<Longrightarrow> memory s' = memory s"
proof -
  assume run: "exec mem_read d instr s = Inr s'"
  have indirect: "memory s' = memory s"
    if "(case mem_read (memory s) a of Inl e \<Rightarrow> Inl e
         | Inr (p, m) \<Rightarrow> load_reg mem_read i p (s\<lparr>memory := m\<rparr>) (update_flags r)) = Inr s'"
    for a i r
    using that by (auto simp add: mem_read_def split: if_splits dest!: load_reg_memory)
  from run show ?thesis
    unfolding exec_def Let_def
    by (auto split: if_splits
        simp add: case_BR_def case_ADD_def case_AND_def case_NOT_def case_LEA_def case_JMP_def
          case_JSR_def case_LD_def case_ST_def case_LDR_def case_STR_def case_LDI_def
          case_STI_def Let_def set_reg_def
        dest!: update_flags_memory load_reg_memory indirect)
qed

lemma halt_first_step: "step mem_read d halt_state = Inr (set_reg RG_PC 0x3001 halt_state)"
  by (simp add: step_def exec_def opcodes reads halt_state_def states)

lemma halt_second_step:
  "step mem_read d (set_reg RG_PC 0x3001 halt_state) = Inr (set_reg RG_PC 0x3002 halt_state)"
  by (simp add: step_def exec_def opcodes case_BR_def reads halt_state_def states flags)

lemma halt_two_steps:
  "run_loop mem_read ds 2 halt_state = Inr (set_reg RG_PC 0x3002 halt_state)"
proof -
  have "run_loop mem_read ds (Suc (Suc 0)) halt_state = Inr (set_reg RG_PC 0x3002 halt_state)"
    by (simp add: halt_first_step halt_second_step) (simp add: halt_state_def states)
  then show ?thesis
    by (simp add: numeral_2_eq_2)
qed

text \<open>
  C3, evaluated where it fails. With \<open>TRAP x25\<close> (HALT) at \<open>0x3000\<close>, the first
  iteration of the loop executes the trap and the loop is still Running, with the PC at
  \<open>0x3001\<close>; the second iteration fetches from \<open>0x3001\<close> and leaves the PC at
  \<open>0x3002\<close>. The case \<open>OP_TRAP\<close> holds no statement, and nothing assigns
  \<open>running\<close>.
\<close>

theorem halt_trap_keeps_running:
  "step mem_read 0 halt_state = Inr (set_reg RG_PC 0x3001 halt_state)
   \<and> running (set_reg RG_PC 0x3001 halt_state)
   \<and> run_loop mem_read dr_zero 2 halt_state = Inr (set_reg RG_PC 0x3002 halt_state)"
  by (simp add: halt_first_step halt_two_steps) (simp add: halt_state_def states)

subsection \<open>The reserved opcodes\<close>

text \<open>
  C9. An instruction whose opcode is RES (\<open>1101\<close>) or RTI (\<open>1000\<close>) executes
  without a fault and leaves the whole state as it is after the fetch: the registers
  \<open>R0\<close> to \<open>R7\<close>, the flags, the incremented PC, memory and the Running state. When
  the loop is Running and fetches such an instruction, the iteration ends in the state
  after the fetch and the loop goes on from there.
\<close>

theorem reserved_opcode_no_op:
  assumes "drop_bit 12 instr = OP_RES \<or> drop_bit 12 instr = OP_RTI"
  shows "exec mr d instr s = Inr s
         \<and> (running s \<and> mr (memory s) (reg s RG_PC) = Inr (instr, m)
            \<longrightarrow> run_loop mr ds (Suc n) s
                = run_loop mr ds n (set_reg RG_PC (reg s RG_PC + 1) s\<lparr>memory := m\<rparr>))"
proof -
  have no_op: "exec mr d' instr t = Inr t" for d' t
    using assms by (auto simp add: exec_def opcodes)
  show ?thesis
    by (simp add: no_op step_def Let_def set_reg_def)
qed

theorem reserved_opcode_no_op_witness:
  "exec mem_read 0 0xD000 res_state = Inr res_state
   \<and> exec mem_read 0 0x8000 res_state = Inr res_state
   \<and> running res_state
   \<and> run_loop mem_read dr_zero (Suc 0) res_state = Inr (set_reg RG_PC 0x3001 res_state)"
proof -
  have res: "drop_bit 12 (0xD000 :: word16) = OP_RES \<or> drop_bit 12 (0xD000 :: word16) = OP_RTI"
    by (simp add: opcodes)
  have rti: "drop_bit 12 (0x8000 :: word16) = OP_RES \<or> drop_bit 12 (0x8000 :: word16) = OP_RTI"
    by (simp add: opcodes)
  have live: "running res_state"
    by (simp add: res_state_def states)
  have fetch: "mem_read (memory res_state) (reg res_state RG_PC) = Inr (0xD000, memory res_state)"
    by (simp add: reads res_state_def states)
  have after: "set_reg RG_PC (reg res_state RG_PC + 1) res_state\<lparr>memory := memory res_state\<rparr>
                 = set_reg RG_PC 0x3001 res_state"
    by (simp add: res_state_def states)
  from reserved_opcode_no_op [OF res, of mem_read 0 res_state "memory res_state" dr_zero 0]
    reserved_opcode_no_op [OF rti, of mem_read 0 res_state]
    live fetch after
  show ?thesis by simp
qed

subsection \<open>main\<close>

text \<open>
  C10. Whenever the program is started with at least one image-file argument
  (\<open>argc \<ge> 2\<close>), whatever the reader, the indeterminate values and the number of
  iterations allowed, \<open>main\<close> prints the load-failure message for \<open>argv[1]\<close> and
  exits with code 1: the outcome is that exit and holds no machine state, so the run
  loop is not started.
\<close>

theorem main_exits_before_loop:
  assumes "2 \<le> length argv"
  shows "main mr ds fuel argv = Exit (''failed to load image: '' @ argv ! 1 @ [CHR 0x0A]) 1"
  using assms by (simp add: main_def Let_def)

theorem main_exits_before_loop_witness:
  "main mem_read dr_zero 1000 [''tyvm'', ''2048.obj'']
     = Exit (''failed to load image: 2048.obj'' @ [CHR 0x0A]) 1"
proof -
  have two: "2 \<le> length [''tyvm'', ''2048.obj'']"
    by simp
  from main_exits_before_loop [OF two, of mem_read dr_zero 1000]
  show ?thesis by simp
qed

text \<open>With fewer than two arguments it exits with code 2: the loop is never reached.\<close>

lemma main_always_exits: "\<exists>out code. main mr ds fuel argv = Exit out code"
  by (simp add: main_def Let_def)

end
